theory Spec2Isabelle
  imports Complex_Main "HOL-Library.Word" "HOL-Library.Log_Nat"
begin

section \<open>Numeric types of the target\<close>

text \<open>
  The library runs on ESP8266 and ESP32. There \<open>unsigned int\<close>, \<open>unsigned long\<close> and
  \<open>long\<close> are 32 bits wide, and \<open>NodeRedTime.h\<close> records that \<open>time_t\<close> is
  \<open>typedef uint32_t time_t\<close> (an unsigned 32-bit quantity). Unsigned values are words.

  The instance variables are \<open>double\<close>, declared so for convenience and meant to hold
  integer milliseconds values (\<open>NodeRedTime.h\<close>). A \<open>double\<close> is modelled by the
  \<open>real\<close> it denotes; infinities and NaN are outside the model. The constructor's
  products, the mid-point and the freshness test work on whole numbers far below
  \<open>2 ^ 53\<close> in every state the operations produce, where IEEE arithmetic is exact. The server's reply
  need not be whole, so the sum that extrapolates from it is rounded to the nearest
  \<open>double\<close> after each operation, as the target does (\<open>round_to_double\<close> below). A
  quotient by \<open>1000.0\<close> is only ever truncated to whole seconds; it is left exact, since
  rounding it to a \<open>double\<close> does not move it across a whole number within the range of
  \<open>time_t\<close>.
\<close>

type_synonym ulong = "32 word"
type_synonym time_t = "32 word"
type_synonym double = real

text \<open>\<open>1.0 * x\<close> for an unsigned integer \<open>x\<close>: the conversion is exact.\<close>

definition ulong_to_double :: "ulong \<Rightarrow> double" where
  "ulong_to_double w = real (unat w)"

text \<open>
  A floating value converted to an integer type loses its fractional part (rounding
  towards zero).
\<close>

definition trunc :: "double \<Rightarrow> int" where
  "trunc x = (if 0 \<le> x then \<lfloor>x\<rfloor> else \<lceil>x\<rceil>)"

text \<open>
  \<open>(long) x\<close>, as a number. C++ leaves the result undefined when the truncated value does
  not fit; the target's conversion routine (libgcc's \<open>__fixdfsi\<close>) saturates, and so
  does the model.
\<close>

definition double_to_long :: "double \<Rightarrow> int" where
  "double_to_long x = max (- (2 ^ 31)) (min (2 ^ 31 - 1) (trunc x))"

text \<open>
  The implicit conversion of a \<open>double\<close> on assignment to an \<open>unsigned long\<close> or to a
  \<open>time_t\<close>, with the same saturation outside \<open>0 .. 2 ^ 32 - 1\<close>.
\<close>

definition double_to_ulong :: "double \<Rightarrow> ulong" where
  "double_to_ulong x = word_of_int (max 0 (min (2 ^ 32 - 1) (trunc x)))"

definition double_to_time_t :: "double \<Rightarrow> time_t" where
  "double_to_time_t x = word_of_int (max 0 (min (2 ^ 32 - 1) (trunc x)))"

subsection \<open>Rounding to the nearest \<open>double\<close>\<close>

text \<open>The nearest integer, a tie going to the even one.\<close>

definition round_even :: "real \<Rightarrow> int" where
  "round_even y =
     (let r = \<lfloor>y\<rfloor>; f = y - of_int r
      in if f < 1 / 2 then r
         else if 1 / 2 < f then r + 1
         else if even r then r else r + 1)"

text \<open>The exponent \<open>e\<close> of a non-zero number: \<open>2 ^ e \<le> \<bar>x\<bar> < 2 ^ (e + 1)\<close>.\<close>

definition binade :: "real \<Rightarrow> int" where
  "binade x =
     (if 1 \<le> \<bar>x\<bar> then bitlen \<lfloor>\<bar>x\<bar>\<rfloor> - 1 else - bitlen (\<lceil>1 / \<bar>x\<bar>\<rceil> - 1))"

text \<open>\<open>x\<close> times \<open>2\<close> to the power \<open>n\<close>, for an integer \<open>n\<close> of either sign.\<close>

definition scaleb :: "real \<Rightarrow> int \<Rightarrow> real" where
  "scaleb x n = (if 0 \<le> n then x * 2 ^ nat n else x / 2 ^ nat (- n))"

text \<open>
  IEEE 754 binary64, round to nearest, ties to even: 53 significant bits, and below
  \<open>2 ^ - 1022\<close> the fixed spacing \<open>2 ^ - 1074\<close>. Overflow to an infinity is not
  modelled.
\<close>

definition round_to_double :: "real \<Rightarrow> double" where
  "round_to_double x =
     (if x = 0 then 0
      else (let p = min (52 - binade x) 1074
            in scaleb (of_int (round_even (scaleb x p))) (- p)))"

text \<open>\<open>x + y\<close> and \<open>x - y\<close> on the type \<open>double\<close>.\<close>

definition double_add :: "double \<Rightarrow> double \<Rightarrow> double" where
  "double_add x y = round_to_double (x + y)"

definition double_sub :: "double \<Rightarrow> double \<Rightarrow> double" where
  "double_sub x y = round_to_double (x - y)"

section \<open>The class \<open>NodeRedTime\<close>\<close>

text \<open>
  The instance variables \<open>_url\<close>, \<open>_recall_ms\<close>, \<open>_minEpoch_ms\<close>, \<open>_epochLastSync_ms\<close>
  and \<open>_uptimeLastSync_ms\<close> (in the spec: endpoint, resyncIntervalMs, minValidEpochMs,
  lastSyncEpochMs, lastSyncLocalMs).
\<close>

record NodeRedTime =
  url :: string
  recall_ms :: double
  minEpoch_ms :: double
  epochLastSync_ms :: double
  uptimeLastSync_ms :: double

text \<open>
  The constructor. \<open>recall_s\<close> is an \<open>unsigned int\<close>, clipped with unsigned \<open>min\<close> and
  \<open>max\<close>; \<open>minEpoch_s\<close> is a \<open>time_t\<close>. The two synchronisation fields start at
  \<open>0.0\<close> (their in-class initialisers).
\<close>

definition NodeRedTime_new :: "string \<Rightarrow> 32 word \<Rightarrow> time_t \<Rightarrow> NodeRedTime" where
  "NodeRedTime_new u recall_s minEpoch_s =
     \<lparr> url = u,
       recall_ms = 1000 * ulong_to_double (min (max recall_s 60) 14400),
       minEpoch_ms = 1000 * ulong_to_double minEpoch_s,
       epochLastSync_ms = 0,
       uptimeLastSync_ms = 0 \<rparr>"

section \<open>The HTTP exchange and the millisecond counter\<close>

text \<open>
  What one call of \<open>serverTime\<close> gets from its environment: either \<open>http.begin\<close> returns
  false, or it returns true and the call reads \<open>millis()\<close> (\<open>t0\<close>), the status of
  \<open>http.GET()\<close>, \<open>millis()\<close> again (\<open>t1\<close>) and, when the status is \<open>HTTP_CODE_OK\<close>,
  the number \<open>http.getString().toDouble()\<close> parses from the reply.
\<close>

datatype http_io =
    BeginFailed
  | Exchange (t0: ulong) (httpCode: int) (t1: ulong) (reply: double)

definition HTTP_CODE_OK :: int where
  "HTTP_CODE_OK = 200"

text \<open>
  A device is one instance together with the log of its network use: the URLs handed to
  \<open>http.begin\<close>, oldest first. Every call of \<open>serverTime\<close> adds one entry; nothing else
  does.
\<close>

record device =
  obj :: NodeRedTime
  requests :: "string list"

definition power_on :: "string \<Rightarrow> 32 word \<Rightarrow> time_t \<Rightarrow> device" where
  "power_on u recall_s minEpoch_s =
     \<lparr> obj = NodeRedTime_new u recall_s minEpoch_s, requests = [] \<rparr>"

section \<open>\<open>serverTime\<close>\<close>

text \<open>The reply in milliseconds; it stays \<open>0.0\<close> unless the status is \<open>HTTP_CODE_OK\<close>.\<close>

fun serverTime_ms_of :: "http_io \<Rightarrow> double" where
  "serverTime_ms_of BeginFailed = 0"
| "serverTime_ms_of (Exchange a code b r) = (if code = HTTP_CODE_OK then r else 0)"

text \<open>
  The estimated synchronisation point: the mid-point of the two counter readings, computed
  in floating point and truncated back to \<open>unsigned long\<close>; \<open>0\<close> when \<open>http.begin\<close> fails.
\<close>

fun sync_ms_of :: "http_io \<Rightarrow> ulong" where
  "sync_ms_of BeginFailed = 0"
| "sync_ms_of (Exchange a code b r) =
     double_to_ulong ((1 * ulong_to_double a + ulong_to_double b) / 2)"

text \<open>The result is the returned flag and the value written through \<open>epoch\<close>.\<close>

definition serverTime :: "http_io \<Rightarrow> device \<Rightarrow> (bool \<times> time_t) \<times> device" where
  "serverTime io d =
     (let self = obj d;
          serverTime_ms = serverTime_ms_of io;
          sync_ms = sync_ms_of io;
          net = requests d @ [url self]
      in if minEpoch_ms self \<le> serverTime_ms
         then ((True, double_to_time_t (serverTime_ms / 1000)),
               \<lparr> obj = self \<lparr> uptimeLastSync_ms := 1 * ulong_to_double sync_ms,
                              epochLastSync_ms := serverTime_ms \<rparr>,
                 requests = net \<rparr>)
         else ((False, 0),
               \<lparr> obj = self \<lparr> epochLastSync_ms := 0 \<rparr>, requests = net \<rparr>))"

section \<open>\<open>syntheticTime\<close>\<close>

text \<open>
  \<open>now\<close> is what \<open>millis()\<close> returns when \<open>syntheticTime\<close> reads it; \<open>io\<close> is what a call
  of \<open>serverTime\<close> would get. The first branch changes nothing and touches no network.
  Its value \<open>now_ms + _epochLastSync_ms - _uptimeLastSync_ms\<close> is evaluated from left to
  right, each operation rounding to a \<open>double\<close>.
\<close>

definition syntheticTime :: "ulong \<Rightarrow> http_io \<Rightarrow> device \<Rightarrow> (bool \<times> time_t) \<times> device" where
  "syntheticTime now io d =
     (let self = obj d in
      if minEpoch_ms self \<le> epochLastSync_ms self
      then (let now_ms = 1 * ulong_to_double now in
            if uptimeLastSync_ms self < now_ms \<and>
               double_to_long (now_ms - (uptimeLastSync_ms self + recall_ms self)) < 0
            then ((True, double_to_time_t
                           (double_sub (double_add now_ms (epochLastSync_ms self))
                              (uptimeLastSync_ms self) / 1000)),
                  d)
            else serverTime io d)
      else serverTime io d)"

section \<open>Sequences of calls\<close>

datatype call = ServerTime http_io | SyntheticTime ulong http_io

fun step :: "device \<Rightarrow> call \<Rightarrow> device" where
  "step d (ServerTime io) = snd (serverTime io d)"
| "step d (SyntheticTime now io) = snd (syntheticTime now io d)"

definition run :: "call list \<Rightarrow> device \<Rightarrow> device" where
  "run cs d = foldl step d cs"

section \<open>Example devices and replies\<close>

text \<open>
  Concrete inputs at which the theorems below are evaluated: an instance with the default
  arguments of the constructor (3600 s, 2010-01-01T00:00:00Z), one with \<open>minEpoch_s = 0\<close>,
  and replies of the server.
\<close>

definition default_device :: device where
  "default_device = power_on ''http://host.domain.com:1880/time/'' 3600 1262304000"

definition zero_min_device :: device where
  "zero_min_device = power_on ''http://host.domain.com:1880/time/'' 3600 0"

text \<open>Status 200 with body \<open>1700000000999\<close>; the counter reads 10 before and 21 after.\<close>

definition good_reply :: http_io where
  "good_reply = Exchange 10 200 21 1700000000999"

text \<open>Status 200 with body \<open>-5\<close>.\<close>

definition negative_reply :: http_io where
  "negative_reply = Exchange 10 200 20 (- 5)"

text \<open>Status 500; the body is not read.\<close>

definition server_error :: http_io where
  "server_error = Exchange 30 500 40 0"

text \<open>Status 200 with body \<open>1E23\<close>, far more seconds than any \<open>time_t\<close> holds.\<close>

definition far_future_reply :: http_io where
  "far_future_reply = Exchange 10 200 21 100000000000000000000000"

text \<open>
  Status 200 with body \<open>2199023255551.999755859375\<close>, which is \<open>2 ^ 41 - 2 ^ - 12\<close>, a
  \<open>double\<close> with a fractional part.
\<close>

definition fractional_reply :: http_io where
  "fractional_reply = Exchange 10 200 21 (2199023255552 - 1 / 4096)"

text \<open>The default instance after one successful \<open>serverTime\<close>.\<close>

definition synced_device :: device where
  "synced_device = snd (serverTime good_reply default_device)"

text \<open>
  The default instance synchronised by the fractional reply, and the default instance
  synchronised shortly before the counter wraps: the two readings add up to more than
  \<open>2 ^ 32\<close>.
\<close>

definition fraction_device :: device where
  "fraction_device = snd (serverTime fractional_reply default_device)"

definition wrapping_device :: device where
  "wrapping_device =
     snd (serverTime (Exchange 4294967000 200 4294967100 1700000000999) default_device)"

section \<open>Facts about the conversions\<close>

lemmas example_defs = default_device_def zero_min_device_def good_reply_def negative_reply_def
  server_error_def far_future_reply_def fractional_reply_def power_on_def NodeRedTime_new_def
  HTTP_CODE_OK_def ulong_to_double_def

lemmas eval_defs = serverTime_def syntheticTime_def Let_def double_to_long_def
  double_to_time_t_def double_to_ulong_def trunc_def double_add_def double_sub_def

lemmas round_defs = round_to_double_def binade_def scaleb_def round_even_def compute_bitlen

lemma ulong_to_double_nonneg: "0 \<le> ulong_to_double w"
  unfolding ulong_to_double_def by (rule of_nat_0_le_iff)

lemma ulong_to_double_pos: "0 < w \<Longrightarrow> 0 < ulong_to_double w"
proof -
  assume "0 < w"
  then have "0 < unat w" by (simp add: word_greater_zero_iff unat_gt_0)
  then show ?thesis by (simp only: ulong_to_double_def of_nat_0_less_iff)
qed

text \<open>A truncated value is negative exactly when the number is \<open>- 1\<close> or less.\<close>

lemma trunc_neg_iff: "trunc x < 0 \<longleftrightarrow> x \<le> - 1"
proof (cases "0 \<le> x")
  case True
  then have "0 \<le> \<lfloor>x\<rfloor>" by simp
  with True show ?thesis by (simp add: trunc_def)
next
  case False
  have "\<lceil>x\<rceil> < 0 \<longleftrightarrow> \<lceil>x\<rceil> \<le> - 1" by arith
  also have "\<dots> \<longleftrightarrow> x \<le> - 1" by (simp add: ceiling_le_iff)
  finally show ?thesis using False by (simp add: trunc_def)
qed

lemma double_to_long_neg_iff: "double_to_long x < 0 \<longleftrightarrow> x \<le> - 1"
proof -
  have "double_to_long x < 0 \<longleftrightarrow> trunc x < 0"
    by (simp add: double_to_long_def min_def max_def)
  then show ?thesis by (simp add: trunc_neg_iff)
qed

lemma clamp_u32_id: "0 \<le> k \<Longrightarrow> k < 2 ^ 32 \<Longrightarrow> max 0 (min (2 ^ 32 - 1) k) = (k :: int)"
  by (simp add: min_def max_def)

text \<open>A non-negative number whose whole part fits \<open>time_t\<close> converts to its floor.\<close>

lemma double_to_time_t_uint:
  assumes "0 \<le> x" and "\<lfloor>x\<rfloor> < 2 ^ 32"
  shows "uint (double_to_time_t x) = \<lfloor>x\<rfloor>"
proof -
  define k where "k = \<lfloor>x\<rfloor>"
  from assms(1) have nn: "0 \<le> k" by (simp add: k_def)
  from assms(2) have lt: "k < 2 ^ 32" by (simp only: k_def)
  from assms(1) have "trunc x = k" by (simp add: trunc_def k_def)
  then have "double_to_time_t x = word_of_int k"
    unfolding double_to_time_t_def using clamp_u32_id [OF nn lt] by simp
  then have "uint (double_to_time_t x) = take_bit 32 k"
    by (simp add: uint_word_of_int_eq)
  also have "\<dots> = k"
    using nn lt by (simp add: take_bit_int_eq_self)
  finally show ?thesis by (simp only: k_def)
qed

text \<open>Whole numbers from \<open>0\<close> to \<open>2 ^ 53\<close> are \<open>double\<close>s: rounding leaves them alone.\<close>

lemma round_even_of_int: "round_even (of_int m) = m"
  by (simp add: round_even_def)

lemma round_to_double_of_int:
  assumes "0 \<le> k" and "k < 2 ^ 53"
  shows "round_to_double (of_int k) = of_int k"
proof (cases "k = 0")
  case True
  then show ?thesis by (simp add: round_to_double_def)
next
  case False
  with assms(1) have pos: "0 < k" by simp
  then have one: "1 \<le> \<bar>real_of_int k\<bar>" by simp
  have lo: "1 \<le> bitlen k"
    using pos bitlen_eq_zero_iff [of k] bitlen_nonneg [of k] by linarith
  have hi: "bitlen k \<le> 53"
    using assms(2) by (simp add: bitlen_le_iff_power)
  have b: "binade (of_int k) = bitlen k - 1"
    using one pos by (simp add: binade_def)
  define p where "p = 52 - (bitlen k - 1)"
  from lo hi have p0: "0 \<le> p" and p1: "p \<le> 1074" by (simp_all add: p_def)
  have sc: "scaleb (of_int k) p = of_int (k * 2 ^ nat p)"
    using p0 by (simp add: scaleb_def)
  have undo: "scaleb (of_int (k * 2 ^ nat p)) (- p) = of_int k"
    using p0 by (simp add: scaleb_def)
  have "round_to_double (of_int k)
      = scaleb (of_int (round_even (scaleb (of_int k) p))) (- p)"
    using pos p1 by (simp add: round_to_double_def Let_def b p_def min_def)
  also have "\<dots> = of_int k"
    unfolding sc round_even_of_int by (rule undo)
  finally show ?thesis .
qed

lemma round_to_double_whole:
  assumes "x \<in> \<int>" and "0 \<le> x" and "x < 2 ^ 53"
  shows "round_to_double x = x"
proof -
  from assms(1) obtain k where k: "x = of_int k" by (auto elim: Ints_cases)
  from assms(2) have k0: "0 \<le> k" unfolding k by simp
  from assms(3) have "real_of_int k < real_of_int (2 ^ 53)" unfolding k by simp
  then have "k < 2 ^ 53" by (simp only: of_int_less_iff)
  with k0 show ?thesis unfolding k by (rule round_to_double_of_int)
qed

lemma ulong_to_double_whole: "ulong_to_double w \<in> \<int>"
  unfolding ulong_to_double_def by (rule Ints_of_nat)

lemma ulong_to_double_less: "ulong_to_double w < 2 ^ 32"
proof -
  have "unat w < 2 ^ 32" using unsigned_less [of w, where ?'a = nat] by simp
  then have "real (unat w) < real (2 ^ 32)" by (simp only: of_nat_less_iff)
  then show ?thesis by (simp add: ulong_to_double_def)
qed

lemma round_to_double_ulong: "round_to_double (ulong_to_double w) = ulong_to_double w"
proof (rule round_to_double_whole)
  show "ulong_to_double w \<in> \<int>" by (rule ulong_to_double_whole)
  show "0 \<le> ulong_to_double w" by (rule ulong_to_double_nonneg)
  show "ulong_to_double w < 2 ^ 53" using ulong_to_double_less [of w] by simp
qed

text \<open>The counter reading in whole seconds, as the extrapolation from \<open>(0, 0)\<close> computes it.\<close>

lemma uptime_seconds:
  "double_to_time_t (double_sub (double_add (1 * ulong_to_double now) 0) 0 / 1000) = now div 1000"
proof -
  have same: "double_sub (double_add (1 * ulong_to_double now) 0) 0 = ulong_to_double now"
    by (simp add: double_add_def double_sub_def round_to_double_ulong)
  have fl: "\<lfloor>ulong_to_double now / 1000\<rfloor> = int (unat now div 1000)"
    using floor_divide_of_nat_eq [of "unat now" 1000, where ?'a = real]
    by (simp add: ulong_to_double_def)
  have "unat now div 1000 < 2 ^ 32"
    using unsigned_less [of now, where ?'a = nat] by simp
  then have lt: "\<lfloor>ulong_to_double now / 1000\<rfloor> < 2 ^ 32"
    unfolding fl by simp
  have "0 \<le> ulong_to_double now / 1000" using ulong_to_double_nonneg [of now] by simp
  from double_to_time_t_uint [OF this lt]
  have "uint (double_to_time_t (ulong_to_double now / 1000)) = int (unat now div 1000)"
    by (simp add: fl)
  also have "\<dots> = uint (now div 1000)"
    by (simp add: uint_div_distrib unat_div_distrib zdiv_int)
  finally show ?thesis unfolding same by (simp add: word_uint_eq_iff)
qed

section \<open>Facts about the two operations\<close>

lemma serverTime_requests:
  "requests (snd (serverTime io d)) = requests d @ [url (obj d)]"
  by (simp add: serverTime_def Let_def)

lemma serverTime_failed:
  "\<not> fst (fst (serverTime io d)) \<longleftrightarrow> serverTime_ms_of io < minEpoch_ms (obj d)"
  by (simp add: serverTime_def Let_def not_le)

lemma serverTime_failed_obj:
  "serverTime_ms_of io < minEpoch_ms (obj d) \<Longrightarrow>
   serverTime io d =
     ((False, 0),
      \<lparr> obj = (obj d) \<lparr> epochLastSync_ms := 0 \<rparr>, requests = requests d @ [url (obj d)] \<rparr>)"
  by (simp add: serverTime_def Let_def)

text \<open>
  \<open>syntheticTime\<close> has two outcomes: it is the call of \<open>serverTime\<close>, or all three tests
  passed and it returns the extrapolated value with the device untouched.
\<close>

lemma syntheticTime_fetch_or_keep:
  "syntheticTime now io d = serverTime io d \<or>
   (minEpoch_ms (obj d) \<le> epochLastSync_ms (obj d) \<and>
    uptimeLastSync_ms (obj d) < ulong_to_double now \<and>
    ulong_to_double now - (uptimeLastSync_ms (obj d) + recall_ms (obj d)) \<le> - 1 \<and>
    syntheticTime now io d =
      ((True, double_to_time_t
         (double_sub (double_add (ulong_to_double now) (epochLastSync_ms (obj d)))
            (uptimeLastSync_ms (obj d)) / 1000)),
       d))"
  by (simp add: syntheticTime_def Let_def double_to_long_neg_iff)

lemma serverTime_minEpoch: "minEpoch_ms (obj (snd (serverTime io d))) = minEpoch_ms (obj d)"
  by (simp add: serverTime_def Let_def)

lemma syntheticTime_minEpoch:
  "minEpoch_ms (obj (snd (syntheticTime now io d))) = minEpoch_ms (obj d)"
  using syntheticTime_fetch_or_keep [of now io d] by (auto simp: serverTime_minEpoch)

lemma step_minEpoch: "minEpoch_ms (obj (step d c)) = minEpoch_ms (obj d)"
  by (cases c) (simp_all add: serverTime_minEpoch syntheticTime_minEpoch)

lemma run_minEpoch: "minEpoch_ms (obj (run cs d)) = minEpoch_ms (obj d)"
  unfolding run_def by (induction cs arbitrary: d) (simp_all add: step_minEpoch)

lemma power_on_minEpoch: "0 \<le> minEpoch_ms (obj (power_on u r m))"
  using ulong_to_double_nonneg [of m] by (simp add: power_on_def NodeRedTime_new_def)

lemma serverTime_epochLastSync:
  "epochLastSync_ms (obj (snd (serverTime io d))) = 0 \<or>
   minEpoch_ms (obj d) \<le> epochLastSync_ms (obj (snd (serverTime io d)))"
  by (simp add: serverTime_def Let_def)

lemma step_epochLastSync:
  assumes "epochLastSync_ms (obj d) = 0 \<or> minEpoch_ms (obj d) \<le> epochLastSync_ms (obj d)"
  shows "epochLastSync_ms (obj (step d c)) = 0 \<or>
         minEpoch_ms (obj d) \<le> epochLastSync_ms (obj (step d c))"
proof (cases c)
  case (ServerTime io)
  then show ?thesis using serverTime_epochLastSync [of io d] by simp
next
  case (SyntheticTime now io)
  then show ?thesis
    using syntheticTime_fetch_or_keep [of now io d] serverTime_epochLastSync [of io d] assms
    by auto
qed

lemma run_epochLastSync:
  assumes "epochLastSync_ms (obj d) = 0 \<or> minEpoch_ms (obj d) \<le> epochLastSync_ms (obj d)"
  shows "epochLastSync_ms (obj (run cs d)) = 0 \<or>
         minEpoch_ms (obj d) \<le> epochLastSync_ms (obj (run cs d))"
  using assms
proof (induction cs arbitrary: d)
  case Nil
  then show ?case by (simp add: run_def)
next
  case (Cons c cs)
  from step_epochLastSync [OF Cons.prems, of c]
  have "epochLastSync_ms (obj (step d c)) = 0 \<or>
        minEpoch_ms (obj (step d c)) \<le> epochLastSync_ms (obj (step d c))"
    by (simp add: step_minEpoch)
  from Cons.IH [OF this] show ?case
    by (simp add: run_def step_minEpoch)
qed

text \<open>The synchronisation point is always a reading of the 32-bit counter.\<close>

lemma serverTime_uptime:
  assumes "\<exists>w. uptimeLastSync_ms (obj d) = ulong_to_double w"
  shows "\<exists>w. uptimeLastSync_ms (obj (snd (serverTime io d))) = ulong_to_double w"
proof (cases "minEpoch_ms (obj d) \<le> serverTime_ms_of io")
  case True
  then have "uptimeLastSync_ms (obj (snd (serverTime io d))) = ulong_to_double (sync_ms_of io)"
    by (simp add: serverTime_def Let_def)
  then show ?thesis by blast
next
  case False
  then have "uptimeLastSync_ms (obj (snd (serverTime io d))) = uptimeLastSync_ms (obj d)"
    by (simp add: serverTime_def Let_def)
  with assms show ?thesis by simp
qed

lemma step_uptime:
  assumes "\<exists>w. uptimeLastSync_ms (obj d) = ulong_to_double w"
  shows "\<exists>w. uptimeLastSync_ms (obj (step d c)) = ulong_to_double w"
proof (cases c)
  case (ServerTime io)
  then show ?thesis using serverTime_uptime [OF assms, of io] by simp
next
  case (SyntheticTime now io)
  then show ?thesis
    using syntheticTime_fetch_or_keep [of now io d] serverTime_uptime [OF assms, of io] assms
    by auto
qed

lemma run_uptime:
  assumes "\<exists>w. uptimeLastSync_ms (obj d) = ulong_to_double w"
  shows "\<exists>w. uptimeLastSync_ms (obj (run cs d)) = ulong_to_double w"
  using assms
proof (induction cs arbitrary: d)
  case Nil
  then show ?case by (simp add: run_def)
next
  case (Cons c cs)
  from Cons.IH [OF step_uptime [OF Cons.prems, of c]] show ?case
    by (simp add: run_def)
qed

lemma power_on_uptime: "\<exists>w. uptimeLastSync_ms (obj (power_on u r m)) = ulong_to_double w"
proof
  show "uptimeLastSync_ms (obj (power_on u r m)) = ulong_to_double 0"
    by (simp add: power_on_def NodeRedTime_new_def ulong_to_double_def)
qed

text \<open>The synchronised example devices, field by field.\<close>

lemma fraction_device_eq:
  "fraction_device =
     \<lparr> obj = \<lparr> url = ''http://host.domain.com:1880/time/'', recall_ms = 3600000,
               minEpoch_ms = 1262304000000, epochLastSync_ms = 2199023255552 - 1 / 4096,
               uptimeLastSync_ms = 15 \<rparr>,
       requests = [''http://host.domain.com:1880/time/''] \<rparr>"
  by (simp add: fraction_device_def example_defs eval_defs)

lemma synced_device_eq:
  "synced_device =
     \<lparr> obj = \<lparr> url = ''http://host.domain.com:1880/time/'', recall_ms = 3600000,
               minEpoch_ms = 1262304000000, epochLastSync_ms = 1700000000999,
               uptimeLastSync_ms = 15 \<rparr>,
       requests = [''http://host.domain.com:1880/time/''] \<rparr>"
  by (simp add: synced_device_def example_defs eval_defs)

lemma wrapping_device_eq:
  "wrapping_device =
     \<lparr> obj = \<lparr> url = ''http://host.domain.com:1880/time/'', recall_ms = 3600000,
               minEpoch_ms = 1262304000000, epochLastSync_ms = 1700000000999,
               uptimeLastSync_ms = 4294967050 \<rparr>,
       requests = [''http://host.domain.com:1880/time/''] \<rparr>"
  by (simp add: wrapping_device_def example_defs eval_defs)

section \<open>Poison on failure\<close>

text \<open>
  C1, amended. On an instance whose \<open>_minEpoch_ms\<close> is positive (the constructor was given
  a non-zero \<open>minEpoch_s\<close>, as the header asks), a call of \<open>serverTime\<close> that returns false
  is followed by a \<open>syntheticTime\<close> that does not extrapolate, whatever the counter reads:
  it is the call of \<open>serverTime\<close>, and one more request goes out.
\<close>

theorem poison_on_failure:
  assumes "0 < minEpoch_ms (obj d)" and "\<not> fst (fst (serverTime io d))"
  shows "syntheticTime now io' (snd (serverTime io d)) = serverTime io' (snd (serverTime io d)) \<and>
         requests (snd (syntheticTime now io' (snd (serverTime io d))))
           = requests (snd (serverTime io d)) @ [url (obj d)]"
proof -
  from assms(2) have "serverTime_ms_of io < minEpoch_ms (obj d)"
    by (simp add: serverTime_failed)
  then have after: "snd (serverTime io d) =
      \<lparr> obj = (obj d) \<lparr> epochLastSync_ms := 0 \<rparr>, requests = requests d @ [url (obj d)] \<rparr>"
    by (simp add: serverTime_failed_obj)
  have fetch: "syntheticTime now io' (snd (serverTime io d)) = serverTime io' (snd (serverTime io d))"
    unfolding after using assms(1) by (simp add: syntheticTime_def Let_def)
  have "requests (snd (serverTime io' (snd (serverTime io d))))
          = requests (snd (serverTime io d)) @ [url (obj d)]"
    unfolding after by (simp add: serverTime_requests)
  with fetch show ?thesis by simp
qed

text \<open>
  The default instance synchronised at the counter reading 15, then a reply with status
  500, then \<open>syntheticTime\<close> with the counter at 1000, well inside the interval: the
  cached point is gone, and the third request goes out.
\<close>

theorem poison_on_failure_witness:
  "minEpoch_ms (obj synced_device) \<le> epochLastSync_ms (obj synced_device) \<and>
   0 < minEpoch_ms (obj synced_device) \<and>
   \<not> fst (fst (serverTime server_error synced_device)) \<and>
   syntheticTime 1000 good_reply (snd (serverTime server_error synced_device))
     = serverTime good_reply (snd (serverTime server_error synced_device)) \<and>
   requests (snd (syntheticTime 1000 good_reply (snd (serverTime server_error synced_device))))
     = [''http://host.domain.com:1880/time/'', ''http://host.domain.com:1880/time/'',
        ''http://host.domain.com:1880/time/''] \<and>
   requests (snd (syntheticTime 1000 good_reply synced_device))
     = [''http://host.domain.com:1880/time/'']"
proof -
  have s: "minEpoch_ms (obj synced_device) \<le> epochLastSync_ms (obj synced_device)"
    by (simp add: synced_device_eq)
  have h1: "0 < minEpoch_ms (obj synced_device)"
    by (simp add: synced_device_eq)
  have h2: "\<not> fst (fst (serverTime server_error synced_device))"
    by (simp add: synced_device_eq server_error_def HTTP_CODE_OK_def serverTime_def Let_def)
  have r: "requests (snd (serverTime server_error synced_device)) @ [url (obj synced_device)]
      = [''http://host.domain.com:1880/time/'', ''http://host.domain.com:1880/time/'',
         ''http://host.domain.com:1880/time/'']"
    by (simp add: serverTime_requests) (simp add: synced_device_eq)
  have before: "requests (snd (syntheticTime 1000 good_reply synced_device))
      = [''http://host.domain.com:1880/time/'']"
    by (simp add: synced_device_eq syntheticTime_def Let_def double_to_long_def trunc_def
        ulong_to_double_def)
  from poison_on_failure [OF h1 h2, of 1000 good_reply, unfolded r] s h1 h2 before
  show ?thesis by blast
qed

text \<open>
  C1 as stated, for every instance, fails on an instance constructed with \<open>minEpoch_s = 0\<close>.
  The body \<open>-5\<close> makes \<open>serverTime\<close> return false with the sentinel; the next
  \<open>syntheticTime\<close>, with the counter at 1000, finds \<open>0 >= 0\<close>, sends nothing and returns
  true with the epoch 1 (the uptime in seconds), although the server would have answered.
\<close>

theorem poison_on_failure_zero_minEpoch:
  "fst (serverTime negative_reply zero_min_device) = (False, 0) \<and>
   fst (syntheticTime 1000 good_reply (snd (serverTime negative_reply zero_min_device)))
     = (True, 1) \<and>
   requests (snd (syntheticTime 1000 good_reply (snd (serverTime negative_reply zero_min_device))))
     = requests (snd (serverTime negative_reply zero_min_device))"
  by (simp add: example_defs eval_defs round_to_double_whole)

section \<open>The freshness test\<close>

text \<open>
  C2. Whenever \<open>syntheticTime\<close> returns through the extrapolation branch (no request goes
  out), the counter reading lies strictly after the synchronisation point
  \<open>_uptimeLastSync_ms\<close> and less than \<open>_recall_ms\<close> after it. This holds in every state,
  hence after every sequence of calls.
\<close>

theorem never_stale:
  assumes "requests (snd (syntheticTime now io d)) = requests d"
  shows "0 < ulong_to_double now - uptimeLastSync_ms (obj d) \<and>
         ulong_to_double now - uptimeLastSync_ms (obj d) < recall_ms (obj d)"
proof -
  from assms have "syntheticTime now io d \<noteq> serverTime io d"
    by (auto simp: serverTime_requests)
  with syntheticTime_fetch_or_keep [of now io d]
  have "uptimeLastSync_ms (obj d) < ulong_to_double now"
    and "ulong_to_double now - (uptimeLastSync_ms (obj d) + recall_ms (obj d)) \<le> - 1"
    by auto
  then show ?thesis by simp
qed

text \<open>
  Synchronised at 15 with an interval of 3600000 ms, the counter at 3600014: one
  millisecond short of the interval, the value is extrapolated.
\<close>

theorem never_stale_witness:
  "requests (snd (syntheticTime 3600014 server_error synced_device)) = requests synced_device \<and>
   0 < ulong_to_double 3600014 - uptimeLastSync_ms (obj synced_device) \<and>
   ulong_to_double 3600014 - uptimeLastSync_ms (obj synced_device) < recall_ms (obj synced_device)"
proof -
  have h: "requests (snd (syntheticTime 3600014 server_error synced_device))
      = requests synced_device"
    by (simp add: synced_device_eq eval_defs ulong_to_double_def)
  from never_stale [OF h] h show ?thesis by blast
qed

text \<open>
  C3. On a synchronised instance, a counter reading that is not strictly greater than
  \<open>_uptimeLastSync_ms\<close> (the counter wrapped, or did not move) is never extrapolated from:
  \<open>syntheticTime\<close> is the call of \<open>serverTime\<close>, and a request goes out.
\<close>

theorem wrap_forces_fetch:
  assumes "minEpoch_ms (obj d) \<le> epochLastSync_ms (obj d)"
    and "\<not> uptimeLastSync_ms (obj d) < ulong_to_double now"
  shows "syntheticTime now io d = serverTime io d \<and>
         requests (snd (syntheticTime now io d)) = requests d @ [url (obj d)]"
proof -
  from assms(2) have "syntheticTime now io d = serverTime io d"
    by (simp add: syntheticTime_def Let_def)
  then show ?thesis by (simp add: serverTime_requests)
qed

text \<open>Synchronised at 4294967050, then the counter wraps and reads 500.\<close>

theorem wrap_forces_fetch_witness:
  "minEpoch_ms (obj wrapping_device) \<le> epochLastSync_ms (obj wrapping_device) \<and>
   \<not> uptimeLastSync_ms (obj wrapping_device) < ulong_to_double 500 \<and>
   syntheticTime 500 good_reply wrapping_device = serverTime good_reply wrapping_device \<and>
   requests (snd (syntheticTime 500 good_reply wrapping_device))
     = requests wrapping_device @ [url (obj wrapping_device)]"
proof -
  have h1: "minEpoch_ms (obj wrapping_device) \<le> epochLastSync_ms (obj wrapping_device)"
    by (simp add: wrapping_device_eq)
  have h2: "\<not> uptimeLastSync_ms (obj wrapping_device) < ulong_to_double 500"
    by (simp add: wrapping_device_eq ulong_to_double_def)
  from wrap_forces_fetch [OF h1 h2, of good_reply] h1 h2 show ?thesis by blast
qed

text \<open>
  C4. On a synchronised instance the cached point is used only while the elapsed counter
  time is strictly less than \<open>_recall_ms\<close>: once it equals or exceeds \<open>_recall_ms\<close>,
  \<open>syntheticTime\<close> is the call of \<open>serverTime\<close>. The tie goes to the refetch.
\<close>

theorem strict_resync_boundary:
  assumes "minEpoch_ms (obj d) \<le> epochLastSync_ms (obj d)"
    and "recall_ms (obj d) \<le> ulong_to_double now - uptimeLastSync_ms (obj d)"
  shows "syntheticTime now io d = serverTime io d \<and>
         requests (snd (syntheticTime now io d)) = requests d @ [url (obj d)]"
proof -
  from assms(2)
  have "\<not> ulong_to_double now - (uptimeLastSync_ms (obj d) + recall_ms (obj d)) \<le> - 1"
    by simp
  with syntheticTime_fetch_or_keep [of now io d]
  have "syntheticTime now io d = serverTime io d" by blast
  then show ?thesis by (simp add: serverTime_requests)
qed

text \<open>Synchronised at 15, the counter at 3600015: exactly the interval has elapsed.\<close>

theorem strict_resync_boundary_witness:
  "minEpoch_ms (obj synced_device) \<le> epochLastSync_ms (obj synced_device) \<and>
   ulong_to_double 3600015 - uptimeLastSync_ms (obj synced_device) = recall_ms (obj synced_device) \<and>
   syntheticTime 3600015 good_reply synced_device = serverTime good_reply synced_device \<and>
   requests (snd (syntheticTime 3600015 good_reply synced_device))
     = requests synced_device @ [url (obj synced_device)]"
proof -
  have h1: "minEpoch_ms (obj synced_device) \<le> epochLastSync_ms (obj synced_device)"
    by (simp add: synced_device_eq)
  have tie: "ulong_to_double 3600015 - uptimeLastSync_ms (obj synced_device)
      = recall_ms (obj synced_device)"
    by (simp add: synced_device_eq ulong_to_double_def)
  then have h2: "recall_ms (obj synced_device)
      \<le> ulong_to_double 3600015 - uptimeLastSync_ms (obj synced_device)"
    by simp
  from strict_resync_boundary [OF h1 h2, of good_reply] h1 tie show ?thesis by blast
qed

section \<open>The failure path\<close>

text \<open>
  C5. The failure path assigns \<open>_epochLastSync_ms\<close> only. After a successful
  synchronisation at 15, a reply with status 500 makes \<open>serverTime\<close> return false and
  zero \<open>_epochLastSync_ms\<close>, while \<open>_uptimeLastSync_ms\<close> keeps the old 15: it is non-zero
  although \<open>_epochLastSync_ms\<close> is zero, against the field's description in the header.
\<close>

theorem failure_keeps_uptimeLastSync:
  "fst (serverTime server_error synced_device) = (False, 0) \<and>
   epochLastSync_ms (obj (snd (serverTime server_error synced_device))) = 0 \<and>
   uptimeLastSync_ms (obj synced_device) = 15 \<and>
   uptimeLastSync_ms (obj (snd (serverTime server_error synced_device))) = 15"
proof -
  have "serverTime_ms_of server_error < minEpoch_ms (obj synced_device)"
    by (simp add: synced_device_eq server_error_def HTTP_CODE_OK_def)
  from serverTime_failed_obj [OF this] show ?thesis
    by (simp add: synced_device_eq)
qed

text \<open>
  C6. Whenever \<open>serverTime\<close> or \<open>syntheticTime\<close> returns false, the value written through
  \<open>epoch\<close> is 0.
\<close>

theorem failure_sentinel:
  "(\<not> fst (fst (serverTime io d)) \<longrightarrow> snd (fst (serverTime io d)) = 0) \<and>
   (\<not> fst (fst (syntheticTime now io d)) \<longrightarrow> snd (fst (syntheticTime now io d)) = 0)"
proof -
  have server: "\<not> fst (fst (serverTime io' d')) \<longrightarrow> snd (fst (serverTime io' d')) = 0"
    for io' d'
    by (simp add: serverTime_def Let_def)
  have "\<not> fst (fst (syntheticTime now io d)) \<longrightarrow> snd (fst (syntheticTime now io d)) = 0"
    using syntheticTime_fetch_or_keep [of now io d] server [of io d] by auto
  with server [of io d] show ?thesis by simp
qed

text \<open>A reply with status 500, to \<open>serverTime\<close> and to a \<open>syntheticTime\<close> that is due.\<close>

theorem failure_sentinel_witness:
  "\<not> fst (fst (serverTime server_error synced_device)) \<and>
   snd (fst (serverTime server_error synced_device)) = 0 \<and>
   \<not> fst (fst (syntheticTime 3600015 server_error synced_device)) \<and>
   snd (fst (syntheticTime 3600015 server_error synced_device)) = 0"
proof -
  have h1: "\<not> fst (fst (serverTime server_error synced_device))"
    by (simp add: synced_device_eq server_error_def HTTP_CODE_OK_def serverTime_def Let_def)
  have h2: "\<not> fst (fst (syntheticTime 3600015 server_error synced_device))"
    by (simp add: synced_device_eq server_error_def HTTP_CODE_OK_def eval_defs
        ulong_to_double_def)
  from failure_sentinel [of server_error synced_device 3600015] h1 h2 show ?thesis by blast
qed

section \<open>The state invariant\<close>

text \<open>
  C7. After construction and any sequence of \<open>serverTime\<close> and \<open>syntheticTime\<close> calls,
  \<open>_epochLastSync_ms\<close> is the sentinel 0 or at least \<open>_minEpoch_ms\<close>.
\<close>

theorem epochLastSync_invariant:
  "epochLastSync_ms (obj (run cs (power_on u r m))) = 0 \<or>
   minEpoch_ms (obj (run cs (power_on u r m)))
     \<le> epochLastSync_ms (obj (run cs (power_on u r m)))"
proof -
  have "epochLastSync_ms (obj (power_on u r m)) = 0"
    by (simp add: power_on_def NodeRedTime_new_def)
  then show ?thesis
    using run_epochLastSync [of "power_on u r m" cs] by (simp add: run_minEpoch)
qed

section \<open>The constructor\<close>

lemma clip_unat: "unat (min (max (r :: 32 word) 60) 14400) = min (max (unat r) 60) 14400"
  by (simp add: min_def max_def word_le_nat_alt)

text \<open>
  C8. The constructor clips the resync value to 60 .. 14400 seconds: \<open>0\<close> seconds gives
  60000 ms, \<open>999999\<close> seconds gives 14400000 ms, and in general \<open>_recall_ms\<close> is 1000 times
  the value clipped to that range.
\<close>

theorem constructor_clamp:
  "recall_ms (NodeRedTime_new u 0 m) = 60000 \<and>
   recall_ms (NodeRedTime_new u 999999 m) = 14400000 \<and>
   recall_ms (NodeRedTime_new u r m) = 1000 * real (min (max (unat r) 60) 14400) \<and>
   60000 \<le> recall_ms (NodeRedTime_new u r m) \<and>
   recall_ms (NodeRedTime_new u r m) \<le> 14400000"
proof -
  have g: "recall_ms (NodeRedTime_new u r m) = 1000 * real (min (max (unat r) 60) 14400)"
    by (simp add: NodeRedTime_new_def ulong_to_double_def clip_unat)
  have lo: "recall_ms (NodeRedTime_new u 0 m) = 60000"
    by (simp add: NodeRedTime_new_def ulong_to_double_def)
  have hi: "recall_ms (NodeRedTime_new u 999999 m) = 14400000"
    by (simp add: NodeRedTime_new_def ulong_to_double_def)
  have b1: "60000 \<le> recall_ms (NodeRedTime_new u r m)"
    unfolding g by (simp add: min_def max_def)
  have b2: "recall_ms (NodeRedTime_new u r m) \<le> 14400000"
    unfolding g by (simp add: min_def max_def)
  from g lo hi b1 b2 show ?thesis by simp
qed

section \<open>Whole seconds\<close>

text \<open>
  C9, amended. On every instance the constructor and the two operations can produce, the
  seconds returned with success by \<open>serverTime\<close> are the floor of the reply in
  milliseconds divided by 1000, and the seconds returned by the extrapolation branch of
  \<open>syntheticTime\<close> are the floor of \<open>now_ms + _epochLastSync_ms - _uptimeLastSync_ms\<close>
  divided by 1000, never a rounded value, provided that the quotient fits \<open>time_t\<close> (is
  below \<open>2 ^ 32\<close>) and, for the extrapolation, that the cached reply \<open>_epochLastSync_ms\<close>
  is a whole number of milliseconds.
\<close>

theorem whole_seconds:
  assumes "d = run cs (power_on u r m)"
  shows "(fst (fst (serverTime io d)) \<and> \<lfloor>serverTime_ms_of io / 1000\<rfloor> < 2 ^ 32 \<longrightarrow>
            uint (snd (fst (serverTime io d))) = \<lfloor>serverTime_ms_of io / 1000\<rfloor>) \<and>
         (requests (snd (syntheticTime now io d)) = requests d \<and>
          epochLastSync_ms (obj d) \<in> \<int> \<and>
          \<lfloor>(ulong_to_double now + epochLastSync_ms (obj d) - uptimeLastSync_ms (obj d)) / 1000\<rfloor>
            < 2 ^ 32 \<longrightarrow>
            uint (snd (fst (syntheticTime now io d)))
              = \<lfloor>(ulong_to_double now + epochLastSync_ms (obj d) - uptimeLastSync_ms (obj d))
                  / 1000\<rfloor>)"
proof -
  from assms have min0: "0 \<le> minEpoch_ms (obj d)"
    by (simp add: run_minEpoch power_on_minEpoch)
  from assms obtain w where up: "uptimeLastSync_ms (obj d) = ulong_to_double w"
    using run_uptime [OF power_on_uptime, of cs u r m] by blast
  have server: "uint (snd (fst (serverTime io d))) = \<lfloor>serverTime_ms_of io / 1000\<rfloor>"
    if ok: "fst (fst (serverTime io d))" and fits: "\<lfloor>serverTime_ms_of io / 1000\<rfloor> < 2 ^ 32"
  proof -
    from ok have ge: "minEpoch_ms (obj d) \<le> serverTime_ms_of io"
      using serverTime_failed [of io d] by simp
    with min0 have "0 \<le> serverTime_ms_of io / 1000" by simp
    from double_to_time_t_uint [OF this fits] ge show ?thesis
      by (simp add: serverTime_def Let_def)
  qed
  have synth: "uint (snd (fst (syntheticTime now io d)))
      = \<lfloor>(ulong_to_double now + epochLastSync_ms (obj d) - uptimeLastSync_ms (obj d)) / 1000\<rfloor>"
    if keep: "requests (snd (syntheticTime now io d)) = requests d"
      and whole: "epochLastSync_ms (obj d) \<in> \<int>"
      and fits: "\<lfloor>(ulong_to_double now + epochLastSync_ms (obj d) - uptimeLastSync_ms (obj d))
          / 1000\<rfloor> < 2 ^ 32"
  proof -
    define n where "n = ulong_to_double now"
    define e where "e = epochLastSync_ms (obj d)"
    define t where "t = uptimeLastSync_ms (obj d)"
    from keep have "syntheticTime now io d \<noteq> serverTime io d"
      by (auto simp: serverTime_requests)
    with syntheticTime_fetch_or_keep [of now io d]
    have synced: "minEpoch_ms (obj d) \<le> e"
      and later: "t < n"
      and res: "syntheticTime now io d =
        ((True, double_to_time_t (double_sub (double_add n e) t / 1000)), d)"
      unfolding n_def e_def t_def by auto
    from min0 synced have e0: "0 \<le> e" by simp
    have n0: "0 \<le> n" unfolding n_def by (rule ulong_to_double_nonneg)
    have t0: "0 \<le> t" unfolding t_def up by (rule ulong_to_double_nonneg)
    have t32: "t < 2 ^ 32" unfolding t_def up by (rule ulong_to_double_less)
    have nZ: "n \<in> \<int>" unfolding n_def by (rule ulong_to_double_whole)
    have tZ: "t \<in> \<int>" unfolding t_def up by (rule ulong_to_double_whole)
    from whole have eZ: "e \<in> \<int>" by (simp only: e_def)
    from fits have "(n + e - t) / 1000 < 2 ^ 32"
      unfolding n_def e_def t_def by (simp only: floor_less_iff) simp
    then have small: "n + e - t < 4294967296000" by simp
    have "double_add n e = n + e"
      unfolding double_add_def
    proof (rule round_to_double_whole)
      show "n + e \<in> \<int>" using nZ eZ by (rule Ints_add)
      show "0 \<le> n + e" using n0 e0 by simp
      show "n + e < 2 ^ 53" using small t32 by simp
    qed
    moreover have "round_to_double (n + e - t) = n + e - t"
    proof (rule round_to_double_whole)
      show "n + e - t \<in> \<int>" using nZ eZ tZ by (intro Ints_diff Ints_add)
      show "0 \<le> n + e - t" using later e0 by simp
      show "n + e - t < 2 ^ 53" using small by simp
    qed
    ultimately have exact: "double_sub (double_add n e) t = n + e - t"
      by (simp add: double_sub_def)
    from later e0 have "0 \<le> (n + e - t) / 1000" by simp
    moreover from fits have "\<lfloor>(n + e - t) / 1000\<rfloor> < 2 ^ 32"
      by (simp only: n_def e_def t_def)
    ultimately have "uint (double_to_time_t ((n + e - t) / 1000)) = \<lfloor>(n + e - t) / 1000\<rfloor>"
      by (rule double_to_time_t_uint)
    then show ?thesis
      unfolding res exact by (simp add: n_def e_def t_def)
  qed
  from server synth show ?thesis by blast
qed

text \<open>
  The reply \<open>1700000000999\<close> gives 1700000000 seconds, not 1700000001; two seconds of
  counter time later the extrapolated \<open>1700000002999\<close> ms give 1700000002.
\<close>

theorem whole_seconds_witness:
  "synced_device
     = run [ServerTime good_reply] (power_on ''http://host.domain.com:1880/time/'' 3600 1262304000) \<and>
   fst (fst (serverTime good_reply synced_device)) \<and>
   \<lfloor>serverTime_ms_of good_reply / 1000\<rfloor> < 2 ^ 32 \<and>
   uint (snd (fst (serverTime good_reply synced_device))) = 1700000000 \<and>
   requests (snd (syntheticTime 2015 good_reply synced_device)) = requests synced_device \<and>
   epochLastSync_ms (obj synced_device) \<in> \<int> \<and>
   \<lfloor>(ulong_to_double 2015 + epochLastSync_ms (obj synced_device)
       - uptimeLastSync_ms (obj synced_device)) / 1000\<rfloor> < 2 ^ 32 \<and>
   uint (snd (fst (syntheticTime 2015 good_reply synced_device))) = 1700000002"
proof -
  have h: "synced_device
      = run [ServerTime good_reply] (power_on ''http://host.domain.com:1880/time/'' 3600 1262304000)"
    by (simp add: synced_device_def default_device_def run_def)
  have a1: "fst (fst (serverTime good_reply synced_device))"
    by (simp add: synced_device_eq good_reply_def HTTP_CODE_OK_def serverTime_def Let_def)
  have v1: "\<lfloor>serverTime_ms_of good_reply / 1000\<rfloor> = 1700000000"
    by (simp add: good_reply_def HTTP_CODE_OK_def)
  have a2: "requests (snd (syntheticTime 2015 good_reply synced_device)) = requests synced_device"
    by (simp add: synced_device_eq syntheticTime_def Let_def double_to_long_def trunc_def
        ulong_to_double_def)
  have a3: "epochLastSync_ms (obj synced_device) \<in> \<int>"
    by (simp add: synced_device_eq)
  have v2: "\<lfloor>(ulong_to_double 2015 + epochLastSync_ms (obj synced_device)
       - uptimeLastSync_ms (obj synced_device)) / 1000\<rfloor> = 1700000002"
    by (simp add: synced_device_eq ulong_to_double_def)
  from whole_seconds [OF h, of good_reply 2015] h a1 a2 a3 show ?thesis
    unfolding v1 v2 by simp
qed

text \<open>
  C9 as stated, for every value returned with success, fails in two ways. The body \<open>1E23\<close>
  passes the only test there is (it is not below \<open>_minEpoch_ms\<close>), so \<open>serverTime\<close>
  returns true; the seconds written through \<open>epoch\<close> are not \<open>10 ^ 20\<close>, which no
  \<open>time_t\<close> holds. And after the reply \<open>2 ^ 41 - 2 ^ - 12\<close>, taken at the counter
  reading 15, \<open>syntheticTime\<close> at the reading 463 extrapolates: the sum of 463 and the
  cached reply rounds up to the \<open>double\<close> 2199023256015, so the call returns 2199023256
  seconds where the milliseconds \<open>2199023255999.999755859375\<close> have the floor
  2199023255.
\<close>

theorem whole_seconds_overflow:
  "fst (fst (serverTime far_future_reply default_device)) \<and>
   uint (snd (fst (serverTime far_future_reply default_device)))
     \<noteq> \<lfloor>serverTime_ms_of far_future_reply / 1000\<rfloor> \<and>
   fraction_device = run [ServerTime fractional_reply] default_device \<and>
   requests (snd (syntheticTime 463 good_reply fraction_device)) = requests fraction_device \<and>
   \<lfloor>(ulong_to_double 463 + epochLastSync_ms (obj fraction_device)
       - uptimeLastSync_ms (obj fraction_device)) / 1000\<rfloor> = 2199023255 \<and>
   uint (snd (fst (syntheticTime 463 good_reply fraction_device))) = 2199023256"
proof -
  have ok: "fst (fst (serverTime far_future_reply default_device))"
    by (simp add: example_defs eval_defs)
  have big: "uint (snd (fst (serverTime far_future_reply default_device)))
      \<noteq> \<lfloor>serverTime_ms_of far_future_reply / 1000\<rfloor>"
    by (simp add: example_defs eval_defs)
  have reach: "fraction_device = run [ServerTime fractional_reply] default_device"
    by (simp add: fraction_device_def run_def)
  have keep: "requests (snd (syntheticTime 463 good_reply fraction_device))
      = requests fraction_device"
    by (simp add: fraction_device_eq syntheticTime_def Let_def double_to_long_def trunc_def
        ulong_to_double_def)
  have exact: "\<lfloor>(ulong_to_double 463 + epochLastSync_ms (obj fraction_device)
       - uptimeLastSync_ms (obj fraction_device)) / 1000\<rfloor> = 2199023255"
    by (simp add: fraction_device_eq ulong_to_double_def)
  have sum: "double_add 463 (9007199254740991 / 4096) = 2199023256015"
    by (simp add: double_add_def round_defs Let_def)
  have diff: "double_sub 2199023256015 15 = 2199023256000"
    by (simp add: double_sub_def round_to_double_whole)
  have "snd (fst (syntheticTime 463 good_reply fraction_device)) = 2199023256"
    by (simp add: fraction_device_eq syntheticTime_def Let_def double_to_long_def trunc_def
        ulong_to_double_def sum diff double_to_time_t_def)
  then have code: "uint (snd (fst (syntheticTime 463 good_reply fraction_device))) = 2199023256"
    by simp
  from ok big reach keep exact code show ?thesis by blast
qed

section \<open>The constructor's \<open>minEpoch_s = 0\<close>\<close>

text \<open>
  C10. On an instance constructed with \<open>minEpoch_s = 0\<close> and never synchronised, the test
  for the sentinel passes (\<open>0 >= 0\<close>): for every counter reading \<open>now\<close> with
  \<open>0 < now < _recall_ms\<close>, \<open>syntheticTime\<close> returns true with the epoch \<open>now / 1000\<close> (the
  uptime in seconds) and sends no request. With any non-zero \<open>minEpoch_s\<close> the first
  \<open>syntheticTime\<close> is the call of \<open>serverTime\<close>.
\<close>

theorem zero_minEpoch_edge:
  "(0 < now \<and> ulong_to_double now < recall_ms (obj (power_on u r 0)) \<longrightarrow>
      syntheticTime now io (power_on u r 0) = ((True, now div 1000), power_on u r 0)) \<and>
   (m \<noteq> 0 \<longrightarrow>
      syntheticTime now io (power_on u r m) = serverTime io (power_on u r m))"
proof -
  have zero: "syntheticTime now io (power_on u r 0) = ((True, now div 1000), power_on u r 0)"
    if pos: "0 < now" and fresh: "ulong_to_double now < recall_ms (obj (power_on u r 0))"
  proof -
    from pos have p: "0 < ulong_to_double now"
      by (rule ulong_to_double_pos)
    have int_valued: "ulong_to_double now - recall_ms (obj (power_on u r 0))
        = real_of_int (int (unat now) - 1000 * int (unat (min (max r 60) 14400)))"
      by (simp add: power_on_def NodeRedTime_new_def ulong_to_double_def)
    from fresh have "ulong_to_double now - recall_ms (obj (power_on u r 0)) < 0" by simp
    then have "int (unat now) - 1000 * int (unat (min (max r 60) 14400)) < 0"
      unfolding int_valued by linarith
    then have "int (unat now) - 1000 * int (unat (min (max r 60) 14400)) \<le> - 1" by simp
    then have "ulong_to_double now - recall_ms (obj (power_on u r 0)) \<le> - 1"
      unfolding int_valued by (metis of_int_le_iff of_int_minus of_int_1)
    then have c: "double_to_long (1 * ulong_to_double now - (0 + recall_ms (obj (power_on u r 0)))) < 0"
      by (simp add: double_to_long_neg_iff)
    have fields: "minEpoch_ms (obj (power_on u r 0)) = 0"
      "epochLastSync_ms (obj (power_on u r 0)) = 0"
      "uptimeLastSync_ms (obj (power_on u r 0)) = 0"
      by (simp_all add: power_on_def NodeRedTime_new_def ulong_to_double_def)
    show ?thesis
      unfolding syntheticTime_def Let_def fields using p c uptime_seconds [of now]
      by simp
  qed
  have nonzero: "syntheticTime now io (power_on u r m) = serverTime io (power_on u r m)"
    if "m \<noteq> 0"
  proof -
    from that have "0 < m" by (simp add: word_greater_zero_iff)
    then have "0 < ulong_to_double m" by (rule ulong_to_double_pos)
    then have "\<not> minEpoch_ms (obj (power_on u r m)) \<le> epochLastSync_ms (obj (power_on u r m))"
      by (simp add: power_on_def NodeRedTime_new_def)
    then show ?thesis by (simp add: syntheticTime_def Let_def)
  qed
  from zero nonzero show ?thesis by blast
qed

text \<open>
  Five seconds after boot: with \<open>minEpoch_s = 0\<close> the answer is 5 and nothing is sent; with
  the default \<open>minEpoch_s\<close> the server is asked.
\<close>

theorem zero_minEpoch_edge_witness:
  "(0 :: 32 word) < 5000 \<and>
   ulong_to_double 5000 < recall_ms (obj (power_on ''http://host.domain.com:1880/time/'' 3600 0)) \<and>
   syntheticTime 5000 good_reply (power_on ''http://host.domain.com:1880/time/'' 3600 0)
     = ((True, 5), power_on ''http://host.domain.com:1880/time/'' 3600 0) \<and>
   (1262304000 :: 32 word) \<noteq> 0 \<and>
   syntheticTime 5000 good_reply (power_on ''http://host.domain.com:1880/time/'' 3600 1262304000)
     = serverTime good_reply (power_on ''http://host.domain.com:1880/time/'' 3600 1262304000)"
proof -
  have h1: "(0 :: 32 word) < 5000" by simp
  have h2: "ulong_to_double 5000
      < recall_ms (obj (power_on ''http://host.domain.com:1880/time/'' 3600 0))"
    by (simp add: power_on_def NodeRedTime_new_def ulong_to_double_def)
  have h3: "(1262304000 :: 32 word) \<noteq> 0" by simp
  have v: "(5000 :: 32 word) div 1000 = 5" by simp
  from zero_minEpoch_edge
    [of 5000 "''http://host.domain.com:1880/time/''" 3600 good_reply 1262304000]
    h1 h2 h3 show ?thesis
    unfolding v by blast
qed

end
